theory Spec2Isabelle
  imports Complex_Main
begin

section \<open>Tables as the analysis receives them\<close>

text \<open>
  The analysis of \<^verbatim>\<open>HRreport.py\<close> works on pandas objects. A \<^verbatim>\<open>Series\<close> is a
  column: its dtype and its cells. The dtype is a field of its own, as in pandas, because
  \<^verbatim>\<open>detect_column_type\<close> asks the dtype (\<^verbatim>\<open>is_numeric_dtype\<close>,
  \<^verbatim>\<open>is_integer_dtype\<close>) and never looks at a single cell to decide whether a column is
  numeric. Python floats are modelled by the real numbers, without rounding, in the
  statistics and in the ratios of the classifier; the null percentage of a column is
  computed with the rounding of float64 (see below). A missing value (\<^verbatim>\<open>NaN\<close>,
  \<^verbatim>\<open>None\<close>, \<^verbatim>\<open>NaT\<close>) is the cell \<open>NA\<close>.
  Strings are lists of bytes; case folding and stripping are those of ASCII.
\<close>

datatype dtype = Int64 | Float64 | Bool | Object | Datetime64

datatype cell = NA | IntV int | FloatV real | BoolV bool | StrV string | TimeV int

record series =
  dtype :: dtype
  cells :: "cell list"

text \<open>
  A \<^verbatim>\<open>DataFrame\<close>: \<open>nrows\<close> is \<^verbatim>\<open>len(df)\<close>, \<open>columns\<close> are the labels with
  \<^verbatim>\<open>df[col]\<close>, in the order of \<^verbatim>\<open>df.columns\<close>. The labels of one frame are
  taken to be pairwise different, so that \<^verbatim>\<open>df[col]\<close> is a Series.
\<close>

record dataframe =
  nrows :: nat
  columns :: "(string \<times> series) list"

definition df_empty :: "dataframe \<Rightarrow> bool" where
  "df_empty df = (nrows df = 0 \<or> columns df = [])"

text \<open>Which cells a column of each dtype holds, and which frames are rectangular.\<close>

fun cell_fits :: "dtype \<Rightarrow> cell \<Rightarrow> bool" where
  "cell_fits Int64 (IntV i) = True"
| "cell_fits Int64 c = False"
| "cell_fits Float64 (FloatV r) = True"
| "cell_fits Float64 NA = True"
| "cell_fits Float64 c = False"
| "cell_fits Bool (BoolV b) = True"
| "cell_fits Bool c = False"
| "cell_fits Datetime64 (TimeV t) = True"
| "cell_fits Datetime64 NA = True"
| "cell_fits Datetime64 c = False"
| "cell_fits Object c = True"

definition wf_series :: "series \<Rightarrow> bool" where
  "wf_series s = list_all (cell_fits (dtype s)) (cells s)"


section \<open>Python and pandas primitives\<close>

subsection \<open>Strings\<close>

definition lower_char :: "char \<Rightarrow> char" where
  "lower_char c =
     (case map_of (zip ''ABCDEFGHIJKLMNOPQRSTUVWXYZ'' ''abcdefghijklmnopqrstuvwxyz'') c of
        Some d \<Rightarrow> d
      | None \<Rightarrow> c)"

definition lower :: "string \<Rightarrow> string" where
  "lower s = map lower_char s"

definition is_space :: "char \<Rightarrow> bool" where
  "is_space c =
     (c \<in> set [CHR '' '', CHR 0x09, CHR 0x0A, CHR 0x0B, CHR 0x0C, CHR 0x0D,
                CHR 0x1C, CHR 0x1D, CHR 0x1E, CHR 0x1F])"

definition strip :: "string \<Rightarrow> string" where
  "strip s = rev (dropWhile is_space (rev (dropWhile is_space s)))"

fun starts_with :: "string \<Rightarrow> string \<Rightarrow> bool" where
  "starts_with [] s = True"
| "starts_with (k # ks) [] = False"
| "starts_with (k # ks) (c # cs) = (k = c \<and> starts_with ks cs)"

text \<open>\<open>contains keyword s\<close> is Python's \<^verbatim>\<open>keyword in s\<close>.\<close>

fun contains :: "string \<Rightarrow> string \<Rightarrow> bool" where
  "contains keyword [] = (keyword = [])"
| "contains keyword (c # cs) = (starts_with keyword (c # cs) \<or> contains keyword cs)"

definition any_keyword :: "string list \<Rightarrow> string \<Rightarrow> bool" where
  "any_keyword keywords s = list_ex (\<lambda>keyword. contains keyword s) keywords"

definition date_keywords :: "string list" where
  "date_keywords =
     [''date'', ''time'', ''created'', ''updated'', ''birth'', ''hire'', ''start'', ''end'']"

definition id_keywords :: "string list" where
  "id_keywords = [''id'', ''code'', ''number'']"

subsection \<open>Dictionaries\<close>

text \<open>
  A Python \<^verbatim>\<open>dict\<close> keeps its keys in insertion order, and the insight lines are
  emitted in that order, so a dict is an association list with pairwise different keys:
  \<open>dict_set\<close> is \<^verbatim>\<open>d[k] = v\<close> (a new key goes last, a known key keeps its place),
  \<open>dict_get\<close> is \<^verbatim>\<open>d.get(k, default)\<close>.
\<close>

fun dict_set :: "('k \<times> 'v) list \<Rightarrow> 'k \<Rightarrow> 'v \<Rightarrow> ('k \<times> 'v) list" where
  "dict_set [] k v = [(k, v)]"
| "dict_set (p # ps) k v = (if fst p = k then (k, v) # ps else p # dict_set ps k v)"

definition dict_get :: "('k \<times> 'v) list \<Rightarrow> 'k \<Rightarrow> 'v \<Rightarrow> 'v" where
  "dict_get d k dflt = (case map_of d k of None \<Rightarrow> dflt | Some v \<Rightarrow> v)"

definition dict_has :: "('k \<times> 'v) list \<Rightarrow> 'k \<Rightarrow> bool" where
  "dict_has d k = (map_of d k \<noteq> None)"

subsection \<open>Series operations\<close>

definition notna :: "cell \<Rightarrow> bool" where
  "notna c = (c \<noteq> NA)"

definition dropna :: "series \<Rightarrow> series" where
  "dropna s = s\<lparr>cells := filter notna (cells s)\<rparr>"

definition head :: "nat \<Rightarrow> series \<Rightarrow> series" where
  "head n s = s\<lparr>cells := take n (cells s)\<rparr>"

definition is_numeric_dtype :: "dtype \<Rightarrow> bool" where
  "is_numeric_dtype d = (d = Int64 \<or> d = Float64 \<or> d = Bool)"

definition is_integer_dtype :: "dtype \<Rightarrow> bool" where
  "is_integer_dtype d = (d = Int64)"

text \<open>
  pandas finds the distinct values of a column with Python's equality, under which
  \<^verbatim>\<open>1 == 1.0 == True\<close>: \<open>py_key\<close> maps the values Python holds equal to one
  representative. \<open>unique\<close> keeps the first occurrence of each value, in order.
\<close>

fun py_key :: "cell \<Rightarrow> cell" where
  "py_key (IntV i) = FloatV (real_of_int i)"
| "py_key (BoolV b) = FloatV (if b then 1 else 0)"
| "py_key c = c"

fun unique :: "cell list \<Rightarrow> cell list" where
  "unique [] = []"
| "unique (c # cs) = c # unique (filter (\<lambda>d. py_key d \<noteq> py_key c) cs)"

text \<open>
  \<^verbatim>\<open>Series.value_counts()\<close>: the distinct values that are not missing with their
  numbers of occurrences, by falling count. pandas does not fix the order among equal
  counts; here it is the order of first occurrence. Only the order in which new keys
  enter a dictionary depends on it.
\<close>

definition value_counts :: "series \<Rightarrow> (cell \<times> nat) list" where
  "value_counts s =
     (let cs = filter notna (cells s) in
      sort_key (\<lambda>p. - int (snd p))
        (map (\<lambda>u. (u, length (filter (\<lambda>d. py_key d = py_key u) cs))) (unique cs)))"

definition nunique :: "series \<Rightarrow> nat" where
  "nunique s = length (unique (filter notna (cells s)))"

definition isnull_sum :: "series \<Rightarrow> nat" where
  "isnull_sum s = length (filter (\<lambda>c. c = NA) (cells s))"

subsection \<open>What the libraries decide\<close>

text \<open>
  Four library functions are parameters of the model, because what they return is fixed
  by pandas and Python and not by this program:
  \<^item> \<open>to_datetime_raise s\<close>: \<^verbatim>\<open>pd.to_datetime(s, errors='raise')\<close> returns (does not
    raise) on a float or object column \<open>s\<close>;
  \<^item> \<open>to_datetime_coerce s\<close>: the cells of \<^verbatim>\<open>pd.to_datetime(s, errors='coerce')\<close>,
    \<open>None\<close> when the call raises;
  \<^item> \<open>py_str c\<close>: \<^verbatim>\<open>str(c)\<close> for a cell that is not a string;
  \<^item> \<open>str_to_number s\<close>: the number \<^verbatim>\<open>pd.to_numeric\<close> reads from a string, if any.
\<close>

record pandas_lib =
  to_datetime_raise :: "series \<Rightarrow> bool"
  to_datetime_coerce :: "series \<Rightarrow> cell list option"
  py_str :: "cell \<Rightarrow> string"
  str_to_number :: "string \<Rightarrow> real option"

text \<open>
  On an integer column \<^verbatim>\<open>pd.to_datetime\<close> reads every value as nanoseconds since the
  epoch and never raises; a datetime column is returned as it is; a bool column raises
  \<^verbatim>\<open>TypeError\<close>.
\<close>

definition to_datetime_ok :: "pandas_lib \<Rightarrow> series \<Rightarrow> bool" where
  "to_datetime_ok L s =
     (case dtype s of
        Int64 \<Rightarrow> True
      | Datetime64 \<Rightarrow> True
      | Bool \<Rightarrow> False
      | Float64 \<Rightarrow> to_datetime_raise L s
      | Object \<Rightarrow> to_datetime_raise L s)"

definition str_of :: "pandas_lib \<Rightarrow> cell \<Rightarrow> string" where
  "str_of L c = (case c of StrV s \<Rightarrow> s | _ \<Rightarrow> py_str L c)"

text \<open>\<^verbatim>\<open>pd.to_numeric(..., errors='coerce')\<close> on one cell: \<open>None\<close> is \<^verbatim>\<open>NaN\<close>.\<close>

fun to_numeric :: "pandas_lib \<Rightarrow> cell \<Rightarrow> real option" where
  "to_numeric L (IntV i) = Some (real_of_int i)"
| "to_numeric L (FloatV r) = Some r"
| "to_numeric L (BoolV b) = Some (if b then 1 else 0)"
| "to_numeric L (StrV s) = str_to_number L s"
| "to_numeric L (TimeV t) = Some (real_of_int t)"
| "to_numeric L NA = None"

definition numeric_data :: "pandas_lib \<Rightarrow> series \<Rightarrow> real list" where
  "numeric_data L s = List.map_filter (to_numeric L) (cells s)"

subsection \<open>Statistics\<close>

text \<open>
  \<^verbatim>\<open>Series.std()\<close> divides by \<open>n - 1\<close> (pandas' default \<^verbatim>\<open>ddof=1\<close>) and is
  \<^verbatim>\<open>NaN\<close> (here \<open>None\<close>) for a single value; \<^verbatim>\<open>np.std\<close> divides by \<open>n\<close>
  (numpy's default \<^verbatim>\<open>ddof=0\<close>).
\<close>

definition series_mean :: "real list \<Rightarrow> real" where
  "series_mean xs = sum_list xs / real (length xs)"

definition series_median :: "real list \<Rightarrow> real" where
  "series_median xs =
     (let ys = sort xs; n = length ys in
      if n mod 2 = 1 then ys ! (n div 2) else (ys ! (n div 2 - 1) + ys ! (n div 2)) / 2)"

definition sum_sq_dev :: "real list \<Rightarrow> real" where
  "sum_sq_dev xs = sum_list (map (\<lambda>x. (x - sum_list xs / real (length xs))\<^sup>2) xs)"

definition series_std :: "real list \<Rightarrow> real option" where
  "series_std xs =
     (if length xs < 2 then None else Some (sqrt (sum_sq_dev xs / real (length xs - 1))))"

definition np_mean :: "real list \<Rightarrow> real" where
  "np_mean xs = sum_list xs / real (length xs)"

definition np_std :: "real list \<Rightarrow> real" where
  "np_std xs = sqrt (sum_sq_dev xs / real (length xs))"

text \<open>\<^verbatim>\<open>min\<close> and \<^verbatim>\<open>max\<close> are only called on lists that are not empty.\<close>

fun list_min :: "real list \<Rightarrow> real" where
  "list_min (x # xs) = fold min xs x"
| "list_min [] = 0"

fun list_max :: "real list \<Rightarrow> real" where
  "list_max (x # xs) = fold max xs x"
| "list_max [] = 0"

subsection \<open>Float64 division and multiplication\<close>

text \<open>
  A float64 with a 53-bit mantissa is \<open>mant * 2 ^ up / 2 ^ down\<close>. Both operations round
  the exact result to the nearest such number, ties to the even mantissa, as IEEE 754
  does. \<open>float_truediv p q\<close> is Python's \<^verbatim>\<open>p / q\<close> on two counts (integers below
  \<open>2 ^ 53\<close> become floats without rounding, \<open>q\<close> is not zero), \<open>float_mul f c\<close> is
  \<^verbatim>\<open>f * c\<close> for an integer \<open>c\<close>. Overflow and subnormal numbers do not arise from
  counts and are not modelled. \<open>bitlen n\<close> is the number of binary digits of \<open>n\<close>.
\<close>

fun bitlen :: "nat \<Rightarrow> nat" where
  "bitlen n = (if n = 0 then 0 else Suc (bitlen (n div 2)))"

declare bitlen.simps [simp del]

definition round_half_even :: "nat \<Rightarrow> nat \<Rightarrow> nat" where
  "round_half_even p q =
     (let d = p div q; r = p mod q in
      if 2 * r < q then d else if q < 2 * r then d + 1 else if even d then d else d + 1)"

record float64 =
  mant :: nat
  up :: nat
  down :: nat

definition float_val :: "float64 \<Rightarrow> real" where
  "float_val f = real (mant f) * 2 ^ up f / 2 ^ down f"

definition float_truediv :: "nat \<Rightarrow> nat \<Rightarrow> float64" where
  "float_truediv p q =
     (if p = 0 then \<lparr>mant = 0, up = 0, down = 0\<rparr>
      else let t = 52 + bitlen q - bitlen p + (if q * 2 ^ bitlen p \<le> p * 2 ^ bitlen q then 0 else 1)
           in \<lparr>mant = round_half_even (p * 2 ^ t) q, up = 0, down = t\<rparr>)"

definition float_mul :: "float64 \<Rightarrow> nat \<Rightarrow> float64" where
  "float_mul f c =
     (let m = mant f * c; s = bitlen m - 53
      in \<lparr>mant = round_half_even m (2 ^ s), up = up f + s, down = down f\<rparr>)"

section \<open>The column type classifier\<close>

datatype column_type = Empty | Date | Identifier | Numeric | Categorical | Text

text \<open>
  \<^verbatim>\<open>detect_column_type(series, column_name)\<close>, branch by branch. The date test calls
  \<^verbatim>\<open>pd.to_datetime\<close> on the first ten values only when the name holds a date keyword,
  and an exception there falls through to the tests below. The two ratios are real
  numbers here; for a column of fewer than \<open>10^14\<close> values the comparisons with
  \<^verbatim>\<open>0.8\<close> and \<^verbatim>\<open>0.5\<close> come out as they do on floats.
\<close>

definition detect_column_type :: "pandas_lib \<Rightarrow> series \<Rightarrow> string \<Rightarrow> column_type" where
  "detect_column_type L s column_name =
     (let clean_series = dropna s in
      if length (cells clean_series) = 0 then Empty
      else
        let column_name_lower = strip (lower column_name) in
        if any_keyword date_keywords column_name_lower \<and> to_datetime_ok L (head 10 clean_series)
        then Date
        else if is_numeric_dtype (dtype clean_series) then
          (if is_integer_dtype (dtype clean_series) \<and>
              real (length (unique (cells clean_series))) / real (length (cells clean_series))
                > 8 / 10 \<and>
              any_keyword id_keywords column_name_lower
           then Identifier
           else Numeric)
        else
          let unique_values = length (unique (cells clean_series));
              total_values = length (cells clean_series)
          in if unique_values \<le> 20 \<or> real unique_values / real total_values < 5 / 10
             then Categorical
             else Text)"

section \<open>The analysis\<close>

subsection \<open>The result\<close>

record numeric_stats_rec =
  mean :: real
  median :: real
  std :: "real option"
  minimum :: real
  maximum :: real
  count :: nat

record data_quality_rec =
  null_count :: nat
  null_percentage :: "real option"
  unique_count :: nat

record sheet_shape =
  rows :: nat
  cols :: nat
  column_names :: "string list"

text \<open>The per-file entry of \<^verbatim>\<open>data_overview\<close>.\<close>

record file_summary =
  filename :: string
  sheets :: "(string \<times> sheet_shape) list"
  total_rows :: nat
  total_columns :: nat

text \<open>The per-file entry of \<^verbatim>\<open>detailed_analysis\<close>; nothing writes \<^verbatim>\<open>categorical_counts\<close>.\<close>

record file_analysis =
  numeric_stats :: "(string \<times> numeric_stats_rec) list"
  categorical_counts :: "(string \<times> (string \<times> nat) list) list"
  data_quality :: "(string \<times> data_quality_rec) list"

text \<open>
  The dictionary \<^verbatim>\<open>analysis['summary']\<close>; its keys \<^verbatim>\<open>total_rows\<close> and
  \<^verbatim>\<open>total_columns\<close> are the fields \<open>sum_total_rows\<close> and \<open>sum_total_columns\<close>.
\<close>

record summary_rec =
  total_files :: nat
  sum_total_rows :: nat
  sum_total_columns :: nat
  numeric_columns :: nat
  categorical_columns :: nat
  date_columns :: nat

text \<open>
  An insight line is kept as its data, not as formatted text: the numeric line of a column
  carries the mean, the standard deviation, the minimum and the maximum it prints, the
  categorical line the top category, its percentage and its number of records.
\<close>

datatype insight =
  Analyzed_files nat nat
| Found_numeric nat
| Identified_categorical nat
| Detected_dates nat
| Numeric_insight string real real real real
| Categorical_insight string string real nat

text \<open>
  The dictionary \<^verbatim>\<open>analysis\<close>; \<open>numeric\<close>, \<open>categorical\<close>, \<open>dates\<close> and
  \<open>identifiers\<close> are the four entries of \<^verbatim>\<open>analysis['charts_data']\<close>.
\<close>

record analysis =
  summary :: summary_rec
  data_overview :: "file_summary list"
  numeric :: "(string \<times> real list) list"
  categorical :: "(string \<times> (string \<times> nat) list) list"
  dates :: "(string \<times> cell list) list"
  identifiers :: "(string \<times> cell list) list"
  detailed_analysis :: "(string \<times> file_analysis) list"
  insights :: "insight list"

text \<open>
  While the loops run, the function also holds the local variables \<^verbatim>\<open>total_rows\<close>
  and \<^verbatim>\<open>all_columns\<close> (an entry of \<^verbatim>\<open>all_columns\<close> holds the type found first
  and the \<^verbatim>\<open>file:sheet\<close> places of the column).
\<close>

record column_entry =
  first_type :: column_type
  files :: "string list"

record state = analysis +
  total_rows_seen :: nat
  all_columns :: "(string \<times> column_entry) list"

subsection \<open>One column\<close>

definition numeric_stats_of :: "real list \<Rightarrow> numeric_stats_rec" where
  "numeric_stats_of xs =
     \<lparr>mean = series_mean xs, median = series_median xs, std = series_std xs,
      minimum = list_min xs, maximum = list_max xs, count = length xs\<rparr>"

definition numeric_branch ::
  "pandas_lib \<Rightarrow> string \<Rightarrow> series \<Rightarrow> state \<times> file_analysis \<Rightarrow> state \<times> file_analysis" where
  "numeric_branch L col_clean s sf =
     (let st = fst sf; fa = snd sf; xs = numeric_data L s in
      if length xs > 0
      then (st\<lparr>numeric := dict_set (numeric st) col_clean (dict_get (numeric st) col_clean [] @ xs)\<rparr>,
            fa\<lparr>numeric_stats := dict_set (numeric_stats fa) col_clean (numeric_stats_of xs)\<rparr>)
      else sf)"

text \<open>The loop over \<^verbatim>\<open>value_counts.items()\<close>.\<close>

definition add_counts ::
  "pandas_lib \<Rightarrow> (cell \<times> nat) list \<Rightarrow> (string \<times> nat) list \<Rightarrow> (string \<times> nat) list" where
  "add_counts L vc d =
     fold (\<lambda>p d. if notna (fst p)
                  then (let key = strip (str_of L (fst p))
                        in dict_set d key (dict_get d key 0 + snd p))
                  else d) vc d"

definition categorical_branch :: "pandas_lib \<Rightarrow> string \<Rightarrow> series \<Rightarrow> state \<Rightarrow> state" where
  "categorical_branch L col_clean s st =
     (let st1 = (if dict_has (categorical st) col_clean then st
                 else st\<lparr>categorical := dict_set (categorical st) col_clean []\<rparr>)
      in st1\<lparr>categorical :=
               dict_set (categorical st1) col_clean
                 (add_counts L (value_counts s) (dict_get (categorical st1) col_clean []))\<rparr>)"

definition date_branch :: "pandas_lib \<Rightarrow> string \<Rightarrow> series \<Rightarrow> state \<Rightarrow> state" where
  "date_branch L col_clean s st =
     (case to_datetime_coerce L s of
        None \<Rightarrow> st
      | Some ds \<Rightarrow>
          (let date_data = filter notna ds in
           if length date_data > 0
           then st\<lparr>dates := dict_set (dates st) col_clean (dict_get (dates st) col_clean [] @ date_data)\<rparr>
           else st))"

text \<open>
  \<^verbatim>\<open>null_count / len(df) * 100\<close>, in float64: the quotient of the two counts, rounded,
  times 100, rounded again. The count is a numpy integer, and numpy's division by zero
  yields \<^verbatim>\<open>nan\<close> or \<^verbatim>\<open>inf\<close>; that outcome is \<open>None\<close>.
\<close>

definition null_percentage_of :: "nat \<Rightarrow> nat \<Rightarrow> real option" where
  "null_percentage_of k n =
     (if n = 0 then None else Some (float_val (float_mul (float_truediv k n) 100)))"

definition quality_of :: "dataframe \<Rightarrow> series \<Rightarrow> data_quality_rec" where
  "quality_of df s =
     \<lparr>null_count = isnull_sum s,
      null_percentage = null_percentage_of (isnull_sum s) (nrows df),
      unique_count = nunique s\<rparr>"

definition process_column ::
  "pandas_lib \<Rightarrow> string \<Rightarrow> string \<Rightarrow> dataframe \<Rightarrow> string \<times> series \<Rightarrow>
   state \<times> file_analysis \<Rightarrow> state \<times> file_analysis" where
  "process_column L fname sheet_name df c sf =
     (let col = fst c; s = snd c; st = fst sf; fa = snd sf;
          col_clean = strip col;
          col_type = detect_column_type L s col;
          st1 = (if dict_has (all_columns st) col_clean then st
                 else st\<lparr>all_columns :=
                           dict_set (all_columns st) col_clean
                             \<lparr>first_type = col_type, files = []\<rparr>\<rparr>);
          entry = dict_get (all_columns st1) col_clean \<lparr>first_type = col_type, files = []\<rparr>;
          st2 = st1\<lparr>all_columns :=
                      dict_set (all_columns st1) col_clean
                        (entry\<lparr>files := files entry @ [fname @ '':'' @ sheet_name]\<rparr>)\<rparr>;
          sf3 = (if col_type = Numeric then numeric_branch L col_clean s (st2, fa)
                 else if col_type = Categorical then (categorical_branch L col_clean s st2, fa)
                 else if col_type = Date then (date_branch L col_clean s st2, fa)
                 else (st2, fa))
      in (fst sf3,
          (snd sf3)\<lparr>data_quality := dict_set (data_quality (snd sf3)) col_clean (quality_of df s)\<rparr>))"

subsection \<open>Sheets, files, and the whole run\<close>

definition process_sheet ::
  "pandas_lib \<Rightarrow> string \<Rightarrow> string \<times> dataframe \<Rightarrow>
   state \<times> file_summary \<times> file_analysis \<Rightarrow> state \<times> file_summary \<times> file_analysis" where
  "process_sheet L fname sh t =
     (let sheet_name = fst sh; df = snd sh; st = fst t; fs = fst (snd t); fa = snd (snd t) in
      if df_empty df then t
      else
        let n_rows = nrows df; n_cols = length (columns df);
            st1 = st\<lparr>total_rows_seen := total_rows_seen st + n_rows\<rparr>;
            fs1 = fs\<lparr>sheets := dict_set (sheets fs) sheet_name
                                  \<lparr>rows = n_rows, cols = n_cols, column_names = map fst (columns df)\<rparr>,
                      total_rows := total_rows fs + n_rows,
                      total_columns := max (total_columns fs) n_cols\<rparr>;
            sf = fold (process_column L fname sheet_name df) (columns df) (st1, fa)
        in (fst sf, fs1, snd sf))"

definition process_file ::
  "pandas_lib \<Rightarrow> string \<times> (string \<times> dataframe) list \<Rightarrow> state \<Rightarrow> state" where
  "process_file L f st =
     (let fname = fst f;
          t = fold (process_sheet L fname) (snd f)
                (st,
                 \<lparr>filename = fname, sheets = [], total_rows = 0, total_columns = 0\<rparr>,
                 \<lparr>numeric_stats = [], categorical_counts = [], data_quality = []\<rparr>);
          st1 = fst t
      in st1\<lparr>detailed_analysis := dict_set (detailed_analysis st1) fname (snd (snd t)),
              data_overview := data_overview st1 @ [fst (snd t)]\<rparr>)"

definition initial_state :: state where
  "initial_state =
     \<lparr>summary = \<lparr>total_files = 0, sum_total_rows = 0, sum_total_columns = 0,
                 numeric_columns = 0, categorical_columns = 0, date_columns = 0\<rparr>,
      data_overview = [], numeric = [], categorical = [], dates = [], identifiers = [],
      detailed_analysis = [], insights = [],
      total_rows_seen = 0, all_columns = []\<rparr>"

definition numeric_insights :: "(string \<times> real list) list \<Rightarrow> insight list" where
  "numeric_insights num =
     map (\<lambda>p. Numeric_insight (fst p) (np_mean (snd p)) (np_std (snd p))
                 (list_min (snd p)) (list_max (snd p)))
       (filter (\<lambda>p. length (snd p) > 1) num)"

text \<open>\<^verbatim>\<open>max(categories, key=categories.get)\<close>: the first key with the largest count.\<close>

fun top_category :: "(string \<times> nat) list \<Rightarrow> string \<times> nat" where
  "top_category (p # ps) = fold (\<lambda>q best. if snd q > snd best then q else best) ps p"
| "top_category [] = ([], 0)"

definition categorical_insights :: "(string \<times> (string \<times> nat) list) list \<Rightarrow> insight list" where
  "categorical_insights cat =
     map (\<lambda>p. let categories = snd p;
                  total_count = sum_list (map snd categories);
                  top = top_category categories
              in Categorical_insight (fst p) (fst top)
                   (real (snd top) / real total_count * 100) (snd top))
       (filter (\<lambda>p. snd p \<noteq> []) cat)"

definition analyze_excel_data ::
  "pandas_lib \<Rightarrow> (string \<times> (string \<times> dataframe) list) list \<Rightarrow> analysis" where
  "analyze_excel_data L dataframes =
     (let total_files = length dataframes;
          st = fold (process_file L) dataframes initial_state
      in analysis.truncate
           (st\<lparr>summary :=
                 \<lparr>total_files = total_files,
                  sum_total_rows = total_rows_seen st,
                  sum_total_columns = length (all_columns st),
                  numeric_columns = length (numeric st),
                  categorical_columns = length (categorical st),
                  date_columns = length (dates st)\<rparr>,
               insights :=
                 [Analyzed_files total_files (total_rows_seen st),
                  Found_numeric (length (numeric st)),
                  Identified_categorical (length (categorical st))]
                 @ (if dates st \<noteq> [] then [Detected_dates (length (dates st))] else [])
                 @ numeric_insights (numeric st)
                 @ categorical_insights (categorical st)\<rparr>))"

subsection \<open>The caller: the end of \<^verbatim>\<open>upload_excel\<close>\<close>







section \<open>Column instances, and what is read off a result\<close>

text \<open>
  A column instance is a column of a sheet that the analysis does not skip, with its
  frame; \<open>instances\<close> lists them in the order the three nested loops visit them.
\<close>

type_synonym inst = "dataframe \<times> string \<times> series"

definition sheet_instances :: "(string \<times> dataframe) list \<Rightarrow> inst list" where
  "sheet_instances shs =
     concat (map (\<lambda>sh. if df_empty (snd sh) then [] else map (\<lambda>c. (snd sh, c)) (columns (snd sh))) shs)"

definition instances :: "(string \<times> (string \<times> dataframe) list) list \<Rightarrow> inst list" where
  "instances dataframes = concat (map (\<lambda>f. sheet_instances (snd f)) dataframes)"

definition inst_key :: "inst \<Rightarrow> string" where
  "inst_key i = strip (fst (snd i))"

definition inst_type :: "pandas_lib \<Rightarrow> inst \<Rightarrow> column_type" where
  "inst_type L i = detect_column_type L (snd (snd i)) (fst (snd i))"

text \<open>The coerced values an instance gives to the pool of its key.\<close>

definition inst_values :: "pandas_lib \<Rightarrow> inst \<Rightarrow> real list" where
  "inst_values L i = (if inst_type L i = Numeric then numeric_data L (snd (snd i)) else [])"

definition pooled :: "pandas_lib \<Rightarrow> string \<Rightarrow> inst list \<Rightarrow> real list" where
  "pooled L key xs = concat (map (inst_values L) (filter (\<lambda>i. inst_key i = key) xs))"

text \<open>The number of values of a column that are not missing.\<close>

definition n_values :: "series \<Rightarrow> nat" where
  "n_values s = length (cells (dropna s))"

text \<open>The mean and the standard deviation that the insight line of a column states.\<close>

fun insight_mean :: "string \<Rightarrow> insight \<Rightarrow> real option" where
  "insight_mean key (Numeric_insight c m sd lo hi) = (if c = key then Some m else None)"
| "insight_mean key other = None"

fun insight_std :: "string \<Rightarrow> insight \<Rightarrow> real option" where
  "insight_std key (Numeric_insight c m sd lo hi) = (if c = key then Some sd else None)"
| "insight_std key other = None"

definition reported_mean :: "analysis \<Rightarrow> string \<Rightarrow> real option" where
  "reported_mean a key =
     (case List.map_filter (insight_mean key) (insights a) of [] \<Rightarrow> None | m # ms \<Rightarrow> Some m)"

definition reported_std :: "analysis \<Rightarrow> string \<Rightarrow> real option" where
  "reported_std a key =
     (case List.map_filter (insight_std key) (insights a) of [] \<Rightarrow> None | sd # sds \<Rightarrow> Some sd)"


text \<open>What a categorical instance adds to the count of value \<open>v\<close> under key \<open>k\<close>.\<close>

definition counted :: "pandas_lib \<Rightarrow> string \<Rightarrow> (cell \<times> nat) list \<Rightarrow> (cell \<times> nat) list" where
  "counted L v vc = filter (\<lambda>p. notna (fst p) \<and> strip (str_of L (fst p)) = v) vc"

definition inst_count :: "pandas_lib \<Rightarrow> string \<Rightarrow> string \<Rightarrow> inst \<Rightarrow> nat" where
  "inst_count L k v i =
     (if inst_key i = k \<and> inst_type L i = Categorical
      then sum_list (map snd (counted L v (value_counts (snd (snd i))))) else 0)"

definition inst_touches :: "pandas_lib \<Rightarrow> string \<Rightarrow> string \<Rightarrow> inst \<Rightarrow> bool" where
  "inst_touches L k v i =
     (inst_key i = k \<and> inst_type L i = Categorical \<and> counted L v (value_counts (snd (snd i))) \<noteq> [])"

text \<open>The count mapping of a key in a result: \<open>None\<close> when the key has no entry.\<close>

definition count_mapping :: "analysis \<Rightarrow> string \<Rightarrow> (string \<rightharpoonup> nat) option" where
  "count_mapping a k = map_option map_of (map_of (categorical a) k)"


definition file_stats :: "analysis \<Rightarrow> string \<Rightarrow> (string \<times> numeric_stats_rec) list" where
  "file_stats a fname =
     (case map_of (detailed_analysis a) fname of None \<Rightarrow> [] | Some fa \<Rightarrow> numeric_stats fa)"

definition nonempty_sheets :: "(string \<times> dataframe) list \<Rightarrow> dataframe list" where
  "nonempty_sheets shs = filter (\<lambda>df. \<not> df_empty df) (map snd shs)"

section \<open>The loops, one instance at a time\<close>

text \<open>
  What one column instance does to each dictionary that the loops fill. The lemmas below
  show that a dictionary of the result is the fold of its step over the instances.
\<close>

definition pool_step :: "pandas_lib \<Rightarrow> inst \<Rightarrow> (string \<times> real list) list \<Rightarrow> (string \<times> real list) list" where
  "pool_step L i d =
     (if inst_values L i \<noteq> []
      then dict_set d (inst_key i) (dict_get d (inst_key i) [] @ inst_values L i) else d)"

definition cat_step ::
  "pandas_lib \<Rightarrow> inst \<Rightarrow> (string \<times> (string \<times> nat) list) list \<Rightarrow> (string \<times> (string \<times> nat) list) list" where
  "cat_step L i d =
     (if inst_type L i = Categorical
      then dict_set d (inst_key i) (add_counts L (value_counts (snd (snd i))) (dict_get d (inst_key i) []))
      else d)"

definition quality_step :: "inst \<Rightarrow> (string \<times> data_quality_rec) list \<Rightarrow> (string \<times> data_quality_rec) list" where
  "quality_step i d = dict_set d (inst_key i) (quality_of (fst i) (snd (snd i)))"

definition stats_step :: "pandas_lib \<Rightarrow> inst \<Rightarrow> (string \<times> numeric_stats_rec) list \<Rightarrow> (string \<times> numeric_stats_rec) list" where
  "stats_step L i d =
     (if inst_values L i \<noteq> [] then dict_set d (inst_key i) (numeric_stats_of (inst_values L i)) else d)"

text \<open>What the entry of a file in \<^verbatim>\<open>detailed_analysis\<close> holds, and the shape of a file.\<close>

definition file_result :: "pandas_lib \<Rightarrow> string \<times> (string \<times> dataframe) list \<Rightarrow> file_analysis \<Rightarrow> bool" where
  "file_result L f fa =
     (data_quality fa = fold quality_step (sheet_instances (snd f)) [] \<and>
      numeric_stats fa = fold (stats_step L) (sheet_instances (snd f)) [])"

definition file_shape :: "string \<times> (string \<times> dataframe) list \<Rightarrow> string \<times> nat \<times> nat" where
  "file_shape f =
     (fst f, sum_list (map nrows (nonempty_sheets (snd f))),
      Max (set (0 # map (\<lambda>df. length (columns df)) (nonempty_sheets (snd f)))))"



section \<open>Example inputs\<close>

text \<open>
  A library on which no string parses as a date or a number. The closed examples use it;
  a theorem with a free \<open>L\<close> holds for every library.
\<close>

definition plain_lib :: pandas_lib where
  "plain_lib =
     \<lparr>to_datetime_raise = (\<lambda>s. False), to_datetime_coerce = (\<lambda>s. None),
      py_str = (\<lambda>c. []), str_to_number = (\<lambda>s. None)\<rparr>"

text \<open>A workbook \<^verbatim>\<open>hr.xlsx\<close> with one sheet that holds one column.\<close>

definition one_column :: "string \<Rightarrow> series \<Rightarrow> (string \<times> (string \<times> dataframe) list) list" where
  "one_column name s =
     [(''hr.xlsx'', [(''Sheet1'', \<lparr>nrows = length (cells s), columns = [(name, s)]\<rparr>)])]"



text \<open>Text columns: twenty letters twice, and twenty-one letters twice.\<close>

definition letters40 :: series where
  "letters40 = \<lparr>dtype = Object,
     cells = map (\<lambda>c. StrV [c]) (''abcdefghijklmnopqrst'' @ ''abcdefghijklmnopqrst'')\<rparr>"

definition letters42 :: series where
  "letters42 = \<lparr>dtype = Object,
     cells = map (\<lambda>c. StrV [c]) (''abcdefghijklmnopqrstu'' @ ''abcdefghijklmnopqrstu'')\<rparr>"

text \<open>Integer columns, and sheets and workbooks built from them.\<close>

definition three_ids :: series where
  "three_ids = \<lparr>dtype = Int64, cells = [IntV 101, IntV 102, IntV 103]\<rparr>"

definition rating :: series where
  "rating = \<lparr>dtype = Int64, cells = [IntV 1, IntV 3]\<rparr>"

definition ages_a :: series where
  "ages_a = \<lparr>dtype = Float64, cells = [FloatV 31, NA, FloatV 45, NA]\<rparr>"

definition ages_b :: series where
  "ages_b = \<lparr>dtype = Int64, cells = [IntV 20, IntV 30]\<rparr>"

definition sheet_a :: dataframe where
  "sheet_a = \<lparr>nrows = 4, columns = [(''Age'', ages_a)]\<rparr>"

definition sheet_b :: dataframe where
  "sheet_b = \<lparr>nrows = 2, columns = [(''Age'', ages_b)]\<rparr>"

definition sheet_c :: dataframe where
  "sheet_c = \<lparr>nrows = 1, columns = [(''Age'', \<lparr>dtype = Int64, cells = [IntV 20]\<rparr>)]\<rparr>"

definition wide_sheet :: dataframe where
  "wide_sheet = \<lparr>nrows = 2, columns =
     [(''Age'', ages_b),
      (''Name'', \<lparr>dtype = Object, cells = [StrV ''Ann'', StrV ''Bob'']\<rparr>),
      (''Team'', \<lparr>dtype = Object, cells = [StrV ''Eng'', StrV ''HR'']\<rparr>)]\<rparr>"



definition two_sources :: "(string \<times> (string \<times> dataframe) list) list" where
  "two_sources = [(''a.xlsx'', [(''Sheet1'', sheet_a)]), (''c.xlsx'', [(''Sheet1'', sheet_c)])]"

definition three_sheets :: "(string \<times> (string \<times> dataframe) list) list" where
  "three_sheets =
     [(''hr.xlsx'', [(''Sheet1'', sheet_a), (''Sheet2'', \<lparr>nrows = 0, columns = []\<rparr>), (''Sheet3'', wide_sheet)])]"




text \<open>The two department sources of the scenario.\<close>

definition dept_a :: "string \<times> (string \<times> dataframe) list" where
  "dept_a = (''a.xlsx'', [(''Sheet1'', \<lparr>nrows = 3, columns =
       [(''Department'', \<lparr>dtype = Object, cells = [StrV ''Eng'', StrV ''Eng'', StrV ''Sales'']\<rparr>)]\<rparr>)])"

definition dept_b :: "string \<times> (string \<times> dataframe) list" where
  "dept_b = (''b.xlsx'', [(''Sheet1'', \<lparr>nrows = 2, columns =
       [(''Department'', \<lparr>dtype = Object, cells = [StrV ''HR'', StrV ''Eng'']\<rparr>)]\<rparr>)])"




section \<open>Dictionaries\<close>

lemma map_of_dict_set: "map_of (dict_set d k v) = (map_of d)(k \<mapsto> v)"
  by (induction d) auto

lemma dict_get_dict_set:
  "dict_get (dict_set d k v) k' dflt = (if k' = k then v else dict_get d k' dflt)"
  by (simp add: dict_get_def map_of_dict_set)

lemma dict_has_dict_set: "dict_has (dict_set d k v) k' = (k' = k \<or> dict_has d k')"
  by (simp add: dict_has_def map_of_dict_set)

lemma keys_dict_set: "fst ` set (dict_set d k v) = insert k (fst ` set d)"
  by (induction d) auto

lemma distinct_dict_set: "distinct (map fst d) \<Longrightarrow> distinct (map fst (dict_set d k v))"
  by (induction d) (auto simp: keys_dict_set)



lemma dict_set_twice: "dict_set (dict_set d k w) k v = dict_set d k v"
  by (induction d) auto

lemma dict_get_absent: "\<not> dict_has d k \<Longrightarrow> dict_get d k dflt = dflt"
  by (simp add: dict_has_def dict_get_def)

section \<open>Float64 rounding\<close>














section \<open>From the nested loops to a fold over the instances\<close>

lemma numeric_process_column:
  "numeric (fst (process_column L fn sn df c sf)) = pool_step L (df, c) (numeric (fst sf))"
  by (simp add: process_column_def pool_step_def Let_def numeric_branch_def categorical_branch_def
      date_branch_def inst_type_def inst_key_def inst_values_def split: option.splits)

lemma categorical_process_column:
  "categorical (fst (process_column L fn sn df c sf)) = cat_step L (df, c) (categorical (fst sf))"
  by (simp add: process_column_def cat_step_def Let_def numeric_branch_def categorical_branch_def
      date_branch_def inst_type_def inst_key_def dict_set_twice dict_get_dict_set dict_get_absent
      split: option.splits)

lemma quality_process_column:
  "data_quality (snd (process_column L fn sn df c sf)) = quality_step (df, c) (data_quality (snd sf))"
  by (simp add: process_column_def quality_step_def Let_def numeric_branch_def categorical_branch_def
      date_branch_def inst_key_def split: option.splits)

lemma stats_process_column:
  "numeric_stats (snd (process_column L fn sn df c sf)) = stats_step L (df, c) (numeric_stats (snd sf))"
  by (simp add: process_column_def stats_step_def Let_def numeric_branch_def categorical_branch_def
      date_branch_def inst_key_def inst_type_def inst_values_def split: option.splits)

lemma overview_process_column:
  "data_overview (fst (process_column L fn sn df c sf)) = data_overview (fst sf)"
  by (simp add: process_column_def Let_def numeric_branch_def categorical_branch_def
      date_branch_def split: option.splits)

lemma detailed_process_column:
  "detailed_analysis (fst (process_column L fn sn df c sf)) = detailed_analysis (fst sf)"
  by (simp add: process_column_def Let_def numeric_branch_def categorical_branch_def
      date_branch_def split: option.splits)


lemma fold_columns_state:
  assumes col: "\<And>c sf. p (fst (process_column L fn sn df c sf)) = g (df, c) (p (fst sf))"
  shows "p (fst (fold (process_column L fn sn df) cs sf)) = fold g (map (Pair df) cs) (p (fst sf))"
  by (induction cs arbitrary: sf) (simp_all add: col)

lemma fold_columns_fa:
  assumes col: "\<And>c sf. r (snd (process_column L fn sn df c sf)) = h (df, c) (r (snd sf))"
  shows "r (snd (fold (process_column L fn sn df) cs sf)) = fold h (map (Pair df) cs) (r (snd sf))"
  by (induction cs arbitrary: sf) (simp_all add: col)

lemma sheet_instances_Nil: "sheet_instances [] = []"
  by (simp add: sheet_instances_def)

lemma sheet_instances_Cons:
  "sheet_instances (sh # shs) =
     (if df_empty (snd sh) then [] else map (Pair (snd sh)) (columns (snd sh))) @ sheet_instances shs"
  by (simp add: sheet_instances_def)

lemma instances_Nil: "instances [] = []"
  by (simp add: instances_def)

lemma instances_Cons: "instances (f # fs) = sheet_instances (snd f) @ instances fs"
  by (simp add: instances_def)

lemma instances_append: "instances (xs @ ys) = instances xs @ instances ys"
  by (simp add: instances_def)

lemma fold_sheets_state:
  assumes col: "\<And>fn sn df c sf. p (fst (process_column L fn sn df c sf)) = g (df, c) (p (fst sf))"
    and rows: "\<And>st n. p (st\<lparr>total_rows_seen := n\<rparr>) = p st"
  shows "p (fst (fold (process_sheet L fn) shs t)) = fold g (sheet_instances shs) (p (fst t))"
proof (induction shs arbitrary: t)
  case Nil
  show ?case by (simp add: sheet_instances_Nil)
next
  case (Cons sh shs)
  have one: "p (fst (process_sheet L fn sh t)) =
      fold g (if df_empty (snd sh) then [] else map (Pair (snd sh)) (columns (snd sh))) (p (fst t))"
    by (simp add: process_sheet_def Let_def fold_columns_state [where p = p and g = g, OF col] rows)
  show ?case
    by (simp add: Cons.IH one sheet_instances_Cons)
qed

lemma fold_sheets_fa:
  assumes col: "\<And>fn sn df c sf. r (snd (process_column L fn sn df c sf)) = h (df, c) (r (snd sf))"
  shows "r (snd (snd (fold (process_sheet L fn) shs t))) = fold h (sheet_instances shs) (r (snd (snd t)))"
proof (induction shs arbitrary: t)
  case Nil
  show ?case by (simp add: sheet_instances_Nil)
next
  case (Cons sh shs)
  have one: "r (snd (snd (process_sheet L fn sh t))) =
      fold h (if df_empty (snd sh) then [] else map (Pair (snd sh)) (columns (snd sh))) (r (snd (snd t)))"
    by (simp add: process_sheet_def Let_def fold_columns_fa [where r = r and h = h, OF col])
  show ?case
    by (simp add: Cons.IH one sheet_instances_Cons)
qed

lemma fold_files_state:
  assumes col: "\<And>fn sn df c sf. p (fst (process_column L fn sn df c sf)) = g (df, c) (p (fst sf))"
    and rows: "\<And>st n. p (st\<lparr>total_rows_seen := n\<rparr>) = p st"
    and frm: "\<And>st d ov. p (st\<lparr>detailed_analysis := d, data_overview := ov\<rparr>) = p st"
  shows "p (fold (process_file L) dfs st) = fold g (instances dfs) (p st)"
proof (induction dfs arbitrary: st)
  case Nil
  show ?case by (simp add: instances_Nil)
next
  case (Cons f fs)
  have one: "p (process_file L f st) = fold g (sheet_instances (snd f)) (p st)"
    by (simp add: process_file_def Let_def frm
        fold_sheets_state [where p = p and g = g, OF col rows])
  show ?case
    by (simp add: Cons.IH one instances_Cons)
qed

lemma numeric_run:
  "numeric (analyze_excel_data L dfs) = fold (pool_step L) (instances dfs) []"
  by (simp add: analyze_excel_data_def Let_def analysis.truncate_def initial_state_def
      fold_files_state [where p = numeric and g = "pool_step L", OF numeric_process_column])

lemma categorical_run:
  "categorical (analyze_excel_data L dfs) = fold (cat_step L) (instances dfs) []"
  by (simp add: analyze_excel_data_def Let_def analysis.truncate_def initial_state_def
      fold_files_state [where p = categorical and g = "cat_step L", OF categorical_process_column])

section \<open>Facts about the example inputs\<close>

lemmas name_simps = any_keyword_def date_keywords_def id_keywords_def lower_def lower_char_def
  strip_def is_space_def

lemma one_column_instances:
  "cells s \<noteq> [] \<Longrightarrow>
   instances (one_column name s) = [(\<lparr>nrows = length (cells s), columns = [(name, s)]\<rparr>, name, s)]"
  by (simp add: one_column_def instances_def sheet_instances_def df_empty_def)





lemma name_remark:
  "any_keyword date_keywords (strip (lower ''Remark'')) = False"
  by (simp add: name_simps)

lemma letters_not_date:
  "detect_column_type L s ''Remark'' \<noteq> Date"
  by (simp add: detect_column_type_def Let_def name_remark)

lemma names_for_ids:
  "strip (lower ''Employee ID'') = ''employee id''"
  "strip (lower ''Age'') = ''age''"
  "strip (lower ''Candidate'') = ''candidate''"
  "strip (lower ''Start'') = ''start''"
  by (simp_all add: name_simps)

lemma keywords_for_ids:
  "any_keyword date_keywords ''employee id'' = False" "contains ''id'' ''employee id''"
  "any_keyword date_keywords ''age'' = False" "any_keyword id_keywords ''age'' = False"
  "any_keyword date_keywords ''candidate''" "contains ''id'' ''candidate''"
  "any_keyword date_keywords ''start''" "any_keyword id_keywords ''start'' = False"
  by (simp_all add: any_keyword_def date_keywords_def id_keywords_def)

lemma name_rating:
  "strip (lower ''Rating'') = ''rating''" "strip ''Rating'' = ''Rating''"
  "any_keyword date_keywords ''rating'' = False" "any_keyword id_keywords ''rating'' = False"
  by (simp_all add: name_simps)

lemma rating_type: "detect_column_type L rating ''Rating'' = Numeric"
  by (simp add: detect_column_type_def rating_def dropna_def notna_def name_rating
      is_numeric_dtype_def is_integer_dtype_def Let_def)

lemma rating_values: "numeric_data L rating = [1, 3]"
  by (simp add: numeric_data_def rating_def List.map_filter_def)

lemma name_age: "strip ''Age'' = ''Age''"
  by (simp add: name_simps)

lemma name_age_lower: "strip (lower ''Age'') = ''age''"
  by (simp add: name_simps)



lemma sheets_not_empty: "\<not> df_empty sheet_a" "\<not> df_empty sheet_b"
  by (simp_all add: df_empty_def sheet_a_def sheet_b_def)

lemma sheet_columns: "columns sheet_a = [(''Age'', ages_a)]" "columns sheet_b = [(''Age'', ages_b)]"
  by (simp_all add: sheet_a_def sheet_b_def)

lemma sheet_c_facts: "\<not> df_empty sheet_c" "columns sheet_c = [(''Age'', \<lparr>dtype = Int64, cells = [IntV 20]\<rparr>)]"
  by (simp_all add: sheet_c_def df_empty_def)

lemma age_types:
  "detect_column_type L ages_a ''Age'' = Numeric"
  "detect_column_type L \<lparr>dtype = Int64, cells = [IntV 20]\<rparr> ''Age'' = Numeric"
  by (simp_all add: detect_column_type_def ages_a_def dropna_def notna_def name_age_lower
      keywords_for_ids is_numeric_dtype_def is_integer_dtype_def Let_def)

lemma age_values:
  "numeric_data L ages_a = [31, 45]"
  "numeric_data L \<lparr>dtype = Int64, cells = [IntV 20]\<rparr> = [20]"
  by (simp_all add: numeric_data_def ages_a_def List.map_filter_def)

lemma name_department:
  "strip ''Department'' = ''Department''"
  "any_keyword date_keywords (strip (lower ''Department'')) = False"
  by (simp_all add: name_simps)

lemma dept_types:
  "detect_column_type L \<lparr>dtype = Object, cells = [StrV ''Eng'', StrV ''Eng'', StrV ''Sales'']\<rparr> ''Department'' = Categorical"
  "detect_column_type L \<lparr>dtype = Object, cells = [StrV ''HR'', StrV ''Eng'']\<rparr> ''Department'' = Categorical"
  by (simp_all add: detect_column_type_def dropna_def notna_def name_department
      is_numeric_dtype_def Let_def)

lemma dept_counts:
  "value_counts \<lparr>dtype = Object, cells = [StrV ''Eng'', StrV ''Eng'', StrV ''Sales'']\<rparr> =
     [(StrV ''Eng'', 2), (StrV ''Sales'', 1)]"
  "value_counts \<lparr>dtype = Object, cells = [StrV ''HR'', StrV ''Eng'']\<rparr> =
     [(StrV ''HR'', 1), (StrV ''Eng'', 1)]"
  by (simp_all add: value_counts_def notna_def Let_def)

lemma dept_keys:
  "strip (str_of L (StrV ''Eng'')) = ''Eng''" "strip (str_of L (StrV ''Sales'')) = ''Sales''"
  "strip (str_of L (StrV ''HR'')) = ''HR''"
  by (simp_all add: str_of_def strip_def is_space_def)



section \<open>The entries of a file\<close>

lemma fold_keep: "fold (\<lambda>i d. d) xs d = d"
  by (induction xs) simp_all

lemma detailed_fold_sheets:
  "detailed_analysis (fst (fold (process_sheet L fn) shs t)) = detailed_analysis (fst t)"
  using fold_sheets_state [where p = detailed_analysis and g = "\<lambda>i d. d" and L = L and fn = fn
      and shs = shs and t = t]
  by (simp add: detailed_process_column fold_keep)

lemma overview_fold_sheets:
  "data_overview (fst (fold (process_sheet L fn) shs t)) = data_overview (fst t)"
  using fold_sheets_state [where p = data_overview and g = "\<lambda>i d. d" and L = L and fn = fn
      and shs = shs and t = t]
  by (simp add: overview_process_column fold_keep)

lemma quality_fold_sheets:
  "data_quality (snd (snd (fold (process_sheet L fn) shs t))) =
     fold quality_step (sheet_instances shs) (data_quality (snd (snd t)))"
  by (rule fold_sheets_fa [where r = data_quality and h = quality_step, OF quality_process_column])

lemma stats_fold_sheets:
  "numeric_stats (snd (snd (fold (process_sheet L fn) shs t))) =
     fold (stats_step L) (sheet_instances shs) (numeric_stats (snd (snd t)))"
  by (rule fold_sheets_fa [where r = numeric_stats and h = "stats_step L", OF stats_process_column])

lemma detailed_process_file:
  "\<exists>fa. detailed_analysis (process_file L f st) = dict_set (detailed_analysis st) (fst f) fa \<and>
        file_result L f fa"
proof -
  let ?fa = "snd (snd (fold (process_sheet L (fst f)) (snd f)
      (st, \<lparr>filename = fst f, sheets = [], total_rows = 0, total_columns = 0\<rparr>,
       \<lparr>numeric_stats = [], categorical_counts = [], data_quality = []\<rparr>)))"
  have "detailed_analysis (process_file L f st) = dict_set (detailed_analysis st) (fst f) ?fa"
    by (simp add: process_file_def Let_def detailed_fold_sheets)
  moreover have "file_result L f ?fa"
    by (simp add: file_result_def quality_fold_sheets stats_fold_sheets)
  ultimately show ?thesis by blast
qed

lemma detailed_fold_files_other:
  "fname \<notin> fst ` set dfs \<Longrightarrow>
   map_of (detailed_analysis (fold (process_file L) dfs st)) fname = map_of (detailed_analysis st) fname"
proof (induction dfs arbitrary: st)
  case Nil
  show ?case by simp
next
  case (Cons f fs)
  obtain fa where "detailed_analysis (process_file L f st) = dict_set (detailed_analysis st) (fst f) fa"
    using detailed_process_file by blast
  with Cons show ?case by (simp add: map_of_dict_set)
qed

lemma detailed_fold_files_lookup:
  "distinct (map fst dfs) \<Longrightarrow> f \<in> set dfs \<Longrightarrow>
   \<exists>fa. map_of (detailed_analysis (fold (process_file L) dfs st)) (fst f) = Some fa \<and> file_result L f fa"
proof (induction dfs arbitrary: st)
  case Nil
  then show ?case by simp
next
  case (Cons g gs)
  show ?case
  proof (cases "f = g")
    case True
    obtain fa where fa: "detailed_analysis (process_file L g st) = dict_set (detailed_analysis st) (fst g) fa"
        "file_result L g fa"
      using detailed_process_file by blast
    from Cons.prems have "fst g \<notin> fst ` set gs" by simp
    then have "map_of (detailed_analysis (fold (process_file L) gs (process_file L g st))) (fst g) =
        map_of (detailed_analysis (process_file L g st)) (fst g)"
      by (rule detailed_fold_files_other)
    with fa True show ?thesis by (simp add: map_of_dict_set)
  next
    case False
    with Cons.prems have "distinct (map fst gs)" "f \<in> set gs" by simp_all
    then show ?thesis using Cons.IH by simp
  qed
qed


lemma detailed_run:
  "detailed_analysis (analyze_excel_data L dfs) =
     detailed_analysis (fold (process_file L) dfs initial_state)"
  by (simp add: analyze_excel_data_def Let_def analysis.truncate_def)


lemma file_stats_run:
  assumes "distinct (map fst dfs)" "(fname, shs) \<in> set dfs"
  shows "file_stats (analyze_excel_data L dfs) fname = fold (stats_step L) (sheet_instances shs) []"
  using detailed_fold_files_lookup [OF assms, of L initial_state]
  by (auto simp: file_stats_def detailed_run file_result_def)

section \<open>The numeric pool\<close>

lemma dict_has_Nil: "dict_has [] k = False"
  by (simp add: dict_has_def)

lemma dict_get_Nil: "dict_get [] k dflt = dflt"
  by (simp add: dict_get_def)

lemma pooled_Nil: "pooled L k [] = []"
  by (simp add: pooled_def)

lemma pooled_Cons:
  "pooled L k (i # xs) = (if inst_key i = k then inst_values L i else []) @ pooled L k xs"
  by (simp add: pooled_def)

lemma pool_fold_get:
  "dict_get (fold (pool_step L) xs d) k [] = dict_get d k [] @ pooled L k xs"
  by (induction xs arbitrary: d) (simp_all add: pooled_Nil pooled_Cons pool_step_def dict_get_dict_set)

lemma pool_fold_has:
  "dict_has (fold (pool_step L) xs d) k = (dict_has d k \<or> pooled L k xs \<noteq> [])"
  by (induction xs arbitrary: d) (auto simp: pooled_Nil pooled_Cons pool_step_def dict_has_dict_set)

lemma pool_fold_distinct:
  "distinct (map fst d) \<Longrightarrow> distinct (map fst (fold (pool_step L) xs d))"
  by (induction xs arbitrary: d) (simp_all add: pool_step_def distinct_dict_set)

lemma pool_fold_lookup:
  "map_of (fold (pool_step L) xs []) k = (if pooled L k xs = [] then None else Some (pooled L k xs))"
proof (cases "pooled L k xs = []")
  case True
  then have "\<not> dict_has (fold (pool_step L) xs []) k"
    by (simp add: pool_fold_has dict_has_Nil)
  then have "map_of (fold (pool_step L) xs []) k = None"
    unfolding dict_has_def by blast
  with True show ?thesis by simp
next
  case False
  then have "dict_has (fold (pool_step L) xs []) k"
    by (simp add: pool_fold_has dict_has_Nil)
  then obtain vs where vs: "map_of (fold (pool_step L) xs []) k = Some vs"
    by (auto simp: dict_has_def)
  have "dict_get (fold (pool_step L) xs []) k [] = pooled L k xs"
    by (simp add: pool_fold_get dict_get_Nil)
  with vs False show ?thesis by (simp add: dict_get_def)
qed

lemma map_filter_append: "List.map_filter f (xs @ ys) = List.map_filter f xs @ List.map_filter f ys"
  by (simp add: List.map_filter_def)

lemma mean_of_categorical_insights: "List.map_filter (insight_mean k) (categorical_insights cat) = []"
  by (induction cat) (simp_all add: categorical_insights_def List.map_filter_def Let_def)

lemma mean_of_numeric_insights:
  "distinct (map fst num) \<Longrightarrow>
   List.map_filter (insight_mean k) (numeric_insights num) =
     (case map_of num k of None \<Rightarrow> [] | Some vs \<Rightarrow> if length vs > 1 then [np_mean vs] else [])"
proof (induction num)
  case Nil
  show ?case by (simp add: numeric_insights_def List.map_filter_def)
next
  case (Cons p num)
  have tail: "k = fst p \<Longrightarrow> List.map_filter (insight_mean k) (numeric_insights num) = []"
    using Cons by (auto simp: map_of_eq_None_iff [THEN iffD2] split: option.splits)
  show ?case
  proof (cases "k = fst p")
    case True
    with tail Cons show ?thesis
      by (cases p) (simp add: numeric_insights_def List.map_filter_def)
  next
    case False
    with Cons show ?thesis
      by (cases p) (simp add: numeric_insights_def List.map_filter_def)
  qed
qed

lemma insights_run:
  "insights (analyze_excel_data L dfs) =
     [Analyzed_files (length dfs) (sum_total_rows (summary (analyze_excel_data L dfs))),
      Found_numeric (length (numeric (analyze_excel_data L dfs))),
      Identified_categorical (length (categorical (analyze_excel_data L dfs)))]
     @ (if dates (analyze_excel_data L dfs) \<noteq> []
        then [Detected_dates (length (dates (analyze_excel_data L dfs)))] else [])
     @ numeric_insights (numeric (analyze_excel_data L dfs))
     @ categorical_insights (categorical (analyze_excel_data L dfs))"
  by (simp add: analyze_excel_data_def Let_def analysis.truncate_def)

lemma reported_mean_run:
  "reported_mean (analyze_excel_data L dfs) k =
     (if length (pooled L k (instances dfs)) > 1
      then Some (np_mean (pooled L k (instances dfs))) else None)"
proof -
  have d: "distinct (map fst (numeric (analyze_excel_data L dfs)))"
    by (simp add: numeric_run pool_fold_distinct)
  have "List.map_filter (insight_mean k) (insights (analyze_excel_data L dfs)) =
      (case map_of (numeric (analyze_excel_data L dfs)) k of None \<Rightarrow> []
       | Some vs \<Rightarrow> if length vs > 1 then [np_mean vs] else [])"
    by (simp add: insights_run map_filter_append mean_of_categorical_insights
        mean_of_numeric_insights [OF d])
  then show ?thesis
    by (simp add: reported_mean_def numeric_run pool_fold_lookup)
qed

text \<open>
  Claim C4. For every column key, the pooled list of the numeric chart data is the
  concatenation, in visiting order, of the coerced value lists of the instances of that
  key that were classified numeric (an instance of another type gives the empty list,
  and a key with no value has no entry). The mean that the insight line of the key
  states is the mean of that concatenated list, the sum of all pooled values over their
  number, and the line exists exactly when the pool holds at least two values.
\<close>

theorem pooled_mean_over_concatenation:
  "map_of (numeric (analyze_excel_data L dataframes)) key =
     (if concat (map (inst_values L) (filter (\<lambda>i. inst_key i = key) (instances dataframes))) = [] then None
      else Some (concat (map (inst_values L) (filter (\<lambda>i. inst_key i = key) (instances dataframes))))) \<and>
   reported_mean (analyze_excel_data L dataframes) key =
     (if length (pooled L key (instances dataframes)) > 1
      then Some (sum_list (pooled L key (instances dataframes))
                 / real (length (pooled L key (instances dataframes))))
      else None)"
  using pool_fold_lookup [of L "instances dataframes" key] reported_mean_run [of L dataframes key]
  by (simp add: numeric_run np_mean_def pooled_def)

text \<open>
  A run of C4: two workbooks with an \<open>Age\<close> column, values 31, 45 and 20. The pool is
  their concatenation and the stated mean is 32, not the mean 29 of the two per-file
  means 38 and 20.
\<close>

theorem pooled_mean_over_concatenation_witness:
  "map_of (numeric (analyze_excel_data plain_lib two_sources)) ''Age'' = Some [31, 45, 20] \<and>
   reported_mean (analyze_excel_data plain_lib two_sources) ''Age'' = Some 32 \<and>
   map_option mean (map_of (file_stats (analyze_excel_data plain_lib two_sources) ''a.xlsx'') ''Age'') = Some 38 \<and>
   map_option mean (map_of (file_stats (analyze_excel_data plain_lib two_sources) ''c.xlsx'') ''Age'') = Some 20"
proof -
  have d: "distinct (map fst two_sources)"
    and a: "(''a.xlsx'', [(''Sheet1'', sheet_a)]) \<in> set two_sources"
    and c: "(''c.xlsx'', [(''Sheet1'', sheet_c)]) \<in> set two_sources"
    by (simp_all add: two_sources_def)
  have i: "instances two_sources =
      [(sheet_a, ''Age'', ages_a), (sheet_c, ''Age'', \<lparr>dtype = Int64, cells = [IntV 20]\<rparr>)]"
    by (simp add: two_sources_def instances_def sheet_instances_def sheets_not_empty sheet_columns
        sheet_c_facts)
  have v: "inst_values plain_lib (sheet_a, ''Age'', ages_a) = [31, 45]"
    "inst_values plain_lib (sheet_c, ''Age'', \<lparr>dtype = Int64, cells = [IntV 20]\<rparr>) = [20]"
    by (simp_all add: inst_values_def inst_type_def age_types age_values)
  have k: "inst_key (df, ''Age'', s) = ''Age''" for df s
    by (simp add: inst_key_def name_age)
  have p: "concat (map (inst_values plain_lib) (filter (\<lambda>i. inst_key i = ''Age'') (instances two_sources)))
      = [31, 45, 20]"
    by (simp add: i k v)
  note t = pooled_mean_over_concatenation [of plain_lib two_sources "''Age''", unfolded pooled_def p]
  have "file_stats (analyze_excel_data plain_lib two_sources) ''a.xlsx'' = [(''Age'', numeric_stats_of [31, 45])]"
    by (simp add: file_stats_run [OF d a] sheet_instances_def sheets_not_empty sheet_columns
        stats_step_def v k)
  moreover have "file_stats (analyze_excel_data plain_lib two_sources) ''c.xlsx'' = [(''Age'', numeric_stats_of [20])]"
    by (simp add: file_stats_run [OF d c] sheet_instances_def sheet_c_facts stats_step_def v k)
  ultimately show ?thesis
    using t by (simp add: numeric_stats_of_def series_mean_def)
qed


section \<open>The two standard deviations\<close>

lemma std_of_categorical_insights: "List.map_filter (insight_std k) (categorical_insights cat) = []"
  by (induction cat) (simp_all add: categorical_insights_def List.map_filter_def Let_def)

lemma std_of_numeric_insights:
  "distinct (map fst num) \<Longrightarrow>
   List.map_filter (insight_std k) (numeric_insights num) =
     (case map_of num k of None \<Rightarrow> [] | Some vs \<Rightarrow> if length vs > 1 then [np_std vs] else [])"
proof (induction num)
  case Nil
  show ?case by (simp add: numeric_insights_def List.map_filter_def)
next
  case (Cons p num)
  have tail: "k = fst p \<Longrightarrow> List.map_filter (insight_std k) (numeric_insights num) = []"
    using Cons by (auto simp: map_of_eq_None_iff [THEN iffD2] split: option.splits)
  show ?case
  proof (cases "k = fst p")
    case True
    with tail Cons show ?thesis
      by (cases p) (simp add: numeric_insights_def List.map_filter_def)
  next
    case False
    with Cons show ?thesis
      by (cases p) (simp add: numeric_insights_def List.map_filter_def)
  qed
qed

lemma reported_std_run:
  "reported_std (analyze_excel_data L dfs) k =
     (if length (pooled L k (instances dfs)) > 1
      then Some (np_std (pooled L k (instances dfs))) else None)"
proof -
  have d: "distinct (map fst (numeric (analyze_excel_data L dfs)))"
    by (simp add: numeric_run pool_fold_distinct)
  have "List.map_filter (insight_std k) (insights (analyze_excel_data L dfs)) =
      (case map_of (numeric (analyze_excel_data L dfs)) k of None \<Rightarrow> []
       | Some vs \<Rightarrow> if length vs > 1 then [np_std vs] else [])"
    by (simp add: insights_run map_filter_append std_of_categorical_insights
        std_of_numeric_insights [OF d])
  then show ?thesis
    by (simp add: reported_std_def numeric_run pool_fold_lookup)
qed

text \<open>
  Claim C8 asks for one convention of the standard deviation wherever it is emitted. The
  code has two: \<^verbatim>\<open>numeric_stats\<close> of a file takes \<^verbatim>\<open>Series.std()\<close>, which divides by
  \<open>n - 1\<close>, and the insight line takes \<^verbatim>\<open>np.std\<close>, which divides by \<open>n\<close>. For one
  workbook with one integer column \<open>Rating\<close> of values 1 and 3, the pooled values and the
  values of the file are the same list, the file's \<^verbatim>\<open>std\<close> is the square root of 2
  and the insight line states 1.
\<close>

theorem two_standard_deviations:
  "wf_series rating \<and>
   map_option std (map_of (file_stats (analyze_excel_data L (one_column ''Rating'' rating)) ''hr.xlsx'') ''Rating'')
     = Some (Some (sqrt 2)) \<and>
   reported_std (analyze_excel_data L (one_column ''Rating'' rating)) ''Rating'' = Some 1 \<and>
   sqrt 2 \<noteq> 1"
proof -
  have c: "cells rating \<noteq> []" by (simp add: rating_def)
  have d: "distinct (map fst (one_column ''Rating'' rating))"
    "(''hr.xlsx'', [(''Sheet1'', \<lparr>nrows = length (cells rating), columns = [(''Rating'', rating)]\<rparr>)])
      \<in> set (one_column ''Rating'' rating)"
    by (simp_all add: one_column_def)
  have v: "inst_values L (df, ''Rating'', rating) = [1, 3]" for df
    by (simp add: inst_values_def inst_type_def rating_type rating_values)
  have k: "inst_key (df, ''Rating'', rating) = ''Rating''" for df
    by (simp add: inst_key_def name_rating)
  have s: "sum_sq_dev [1, 3] = 2"
    by (simp add: sum_sq_dev_def power2_eq_square)
  have "file_stats (analyze_excel_data L (one_column ''Rating'' rating)) ''hr.xlsx'' =
      [(''Rating'', numeric_stats_of [1, 3])]"
    by (simp add: file_stats_run [OF d] sheet_instances_def df_empty_def c stats_step_def v k)
  moreover have "pooled L ''Rating'' (instances (one_column ''Rating'' rating)) = [1, 3]"
    by (simp add: one_column_instances [OF c] pooled_def v k)
  moreover have "wf_series rating" by (simp add: wf_series_def rating_def)
  ultimately show ?thesis
    by (simp add: reported_std_run numeric_stats_of_def series_std_def np_std_def s)
qed

section \<open>The categorical counts\<close>

lemma counted_Nil: "counted L v [] = []"
  by (simp add: counted_def)

lemma counted_Cons:
  "counted L v (p # vc) =
     (if notna (fst p) \<and> strip (str_of L (fst p)) = v then [p] else []) @ counted L v vc"
  by (simp add: counted_def)

lemma add_counts_Nil: "add_counts L [] d = d"
  by (simp add: add_counts_def)

lemma add_counts_Cons:
  "add_counts L (p # vc) d =
     add_counts L vc (if notna (fst p)
                      then dict_set d (strip (str_of L (fst p)))
                             (dict_get d (strip (str_of L (fst p))) 0 + snd p)
                      else d)"
  by (simp add: add_counts_def Let_def)

lemma add_counts_get:
  "dict_get (add_counts L vc d) v 0 = dict_get d v 0 + sum_list (map snd (counted L v vc))"
  by (induction vc arbitrary: d)
    (simp_all add: add_counts_Nil add_counts_Cons counted_Nil counted_Cons dict_get_dict_set)

lemma add_counts_has:
  "dict_has (add_counts L vc d) v = (dict_has d v \<or> counted L v vc \<noteq> [])"
  by (induction vc arbitrary: d)
    (auto simp: add_counts_Nil add_counts_Cons counted_Nil counted_Cons dict_has_dict_set)

lemma cat_fold_present:
  "dict_has (fold (cat_step L) xs d) k =
     (dict_has d k \<or> list_ex (\<lambda>i. inst_key i = k \<and> inst_type L i = Categorical) xs)"
  by (induction xs arbitrary: d) (auto simp: cat_step_def dict_has_dict_set)

lemma cat_fold_count:
  "dict_get (dict_get (fold (cat_step L) xs d) k []) v 0 =
     dict_get (dict_get d k []) v 0 + sum_list (map (inst_count L k v) xs)"
  by (induction xs arbitrary: d)
    (simp_all add: cat_step_def inst_count_def dict_get_dict_set add_counts_get)

lemma cat_fold_touched:
  "dict_has (dict_get (fold (cat_step L) xs d) k []) v =
     (dict_has (dict_get d k []) v \<or> list_ex (inst_touches L k v) xs)"
  by (induction xs arbitrary: d)
    (auto simp: cat_step_def inst_touches_def dict_get_dict_set add_counts_has)

lemma map_of_by_has_get:
  "map_of d v = (if dict_has d v then Some (dict_get d v dflt) else None)"
  by (auto simp: dict_has_def dict_get_def)

lemma count_mapping_run:
  "count_mapping (analyze_excel_data L dfs) k =
     (if list_ex (\<lambda>i. inst_key i = k \<and> inst_type L i = Categorical) (instances dfs)
      then Some (\<lambda>v. if list_ex (inst_touches L k v) (instances dfs)
                      then Some (sum_list (map (inst_count L k v) (instances dfs))) else None)
      else None)"
proof -
  let ?c = "fold (cat_step L) (instances dfs) []"
  have present: "dict_has ?c k = list_ex (\<lambda>i. inst_key i = k \<and> inst_type L i = Categorical) (instances dfs)"
    by (simp add: cat_fold_present dict_has_Nil)
  have inner: "map_of (dict_get ?c k []) v =
      (if list_ex (inst_touches L k v) (instances dfs)
       then Some (sum_list (map (inst_count L k v) (instances dfs))) else None)" for v
    by (simp add: map_of_by_has_get [where dflt = 0] cat_fold_touched cat_fold_count
        dict_get_Nil dict_has_Nil)
  show ?thesis
  proof (cases "dict_has ?c k")
    case True
    then obtain m where m: "map_of ?c k = Some m"
      by (auto simp: dict_has_def)
    then have "dict_get ?c k [] = m"
      by (simp add: dict_get_def)
    with inner have "map_of m = (\<lambda>v. if list_ex (inst_touches L k v) (instances dfs)
        then Some (sum_list (map (inst_count L k v) (instances dfs))) else None)"
      by auto
    with m True present show ?thesis
      by (simp add: count_mapping_def categorical_run)
  next
    case False
    then have "map_of ?c k = None"
      unfolding dict_has_def by blast
    with False present show ?thesis
      by (simp add: count_mapping_def categorical_run)
  qed
qed

text \<open>
  Claim C5. Categorical merging is commutative: for two sources \<open>A\<close> and \<open>B\<close> and every
  column key, the analysis of \<open>A\<close> then \<open>B\<close> and the analysis of \<open>B\<close> then \<open>A\<close> hold
  the same count mapping for the key (both have no entry for it, or both have one with
  the same count for every trimmed value). The count of a value is the sum of what the
  categorical instances of the key in \<open>A\<close> and in \<open>B\<close> count for it.
\<close>

theorem categorical_merge_commutes:
  "count_mapping (analyze_excel_data L [A, B]) k = count_mapping (analyze_excel_data L [B, A]) k \<and>
   dict_get (dict_get (categorical (analyze_excel_data L [A, B])) k []) v 0 =
     sum_list (map (inst_count L k v) (instances [A])) + sum_list (map (inst_count L k v) (instances [B]))"
proof -
  have i: "instances [A, B] = instances [A] @ instances [B]" "instances [B, A] = instances [B] @ instances [A]"
    by (simp_all add: instances_def)
  have "count_mapping (analyze_excel_data L [A, B]) k = count_mapping (analyze_excel_data L [B, A]) k"
    unfolding count_mapping_run i by (auto simp: add.commute intro!: ext)
  moreover have "dict_get (dict_get (categorical (analyze_excel_data L [A, B])) k []) v 0 =
     sum_list (map (inst_count L k v) (instances [A])) + sum_list (map (inst_count L k v) (instances [B]))"
    by (simp add: categorical_run cat_fold_count i dict_get_Nil)
  ultimately show ?thesis by simp
qed

text \<open>
  A run of C5, the department scenario: the two orders give dictionaries with their keys
  in different order and the same counts.
\<close>

theorem categorical_merge_commutes_witness:
  "categorical (analyze_excel_data plain_lib [dept_a, dept_b]) =
     [(''Department'', [(''Eng'', 3), (''Sales'', 1), (''HR'', 1)])] \<and>
   categorical (analyze_excel_data plain_lib [dept_b, dept_a]) =
     [(''Department'', [(''HR'', 1), (''Eng'', 3), (''Sales'', 1)])] \<and>
   count_mapping (analyze_excel_data plain_lib [dept_a, dept_b]) ''Department'' =
     count_mapping (analyze_excel_data plain_lib [dept_b, dept_a]) ''Department''"
proof -
  have "categorical (analyze_excel_data plain_lib [dept_a, dept_b]) =
     [(''Department'', [(''Eng'', 3), (''Sales'', 1), (''HR'', 1)])]"
    by (simp add: categorical_run instances_def sheet_instances_def dept_a_def dept_b_def df_empty_def
        cat_step_def inst_type_def inst_key_def dept_types name_department dept_counts
        add_counts_Cons add_counts_Nil notna_def dept_keys dict_get_def)
  moreover have "categorical (analyze_excel_data plain_lib [dept_b, dept_a]) =
     [(''Department'', [(''HR'', 1), (''Eng'', 3), (''Sales'', 1)])]"
    by (simp add: categorical_run instances_def sheet_instances_def dept_a_def dept_b_def df_empty_def
        cat_step_def inst_type_def inst_key_def dept_types name_department dept_counts
        add_counts_Cons add_counts_Nil notna_def dept_keys dict_get_def)
  ultimately show ?thesis
    using categorical_merge_commutes [of plain_lib dept_a dept_b "''Department''"]
    by simp
qed

section \<open>The data quality records\<close>















section \<open>The shape summary of a file\<close>

lemma summary_process_sheet:
  "fst (snd (process_sheet L fn sh t)) =
     (if df_empty (snd sh) then fst (snd t)
      else (fst (snd t))\<lparr>sheets := dict_set (sheets (fst (snd t))) (fst sh)
                 \<lparr>rows = nrows (snd sh), cols = length (columns (snd sh)),
                  column_names = map fst (columns (snd sh))\<rparr>,
             total_rows := total_rows (fst (snd t)) + nrows (snd sh),
             total_columns := max (total_columns (fst (snd t))) (length (columns (snd sh)))\<rparr>)"
  by (simp add: process_sheet_def Let_def)

lemma nonempty_sheets_Nil: "nonempty_sheets [] = []"
  by (simp add: nonempty_sheets_def)

lemma nonempty_sheets_Cons:
  "nonempty_sheets (sh # shs) = (if df_empty (snd sh) then [] else [snd sh]) @ nonempty_sheets shs"
  by (simp add: nonempty_sheets_def)

lemma total_rows_fold_sheets:
  "total_rows (fst (snd (fold (process_sheet L fn) shs t))) =
     total_rows (fst (snd t)) + sum_list (map nrows (nonempty_sheets shs))"
  by (induction shs arbitrary: t)
    (simp_all add: summary_process_sheet nonempty_sheets_Nil nonempty_sheets_Cons)

lemma total_columns_fold_sheets:
  "total_columns (fst (snd (fold (process_sheet L fn) shs t))) =
     Max (set (total_columns (fst (snd t)) # map (\<lambda>df. length (columns df)) (nonempty_sheets shs)))"
proof (induction shs arbitrary: t)
  case Nil
  show ?case by (simp add: nonempty_sheets_Nil)
next
  case (Cons sh shs)
  show ?case
  proof (cases "df_empty (snd sh)")
    case True
    then show ?thesis by (simp add: Cons.IH summary_process_sheet nonempty_sheets_Cons)
  next
    case False
    let ?S = "set (map (\<lambda>df. length (columns df)) (nonempty_sheets shs))"
    have "Max (insert (max (total_columns (fst (snd t))) (length (columns (snd sh)))) ?S) =
        Max (insert (total_columns (fst (snd t))) (insert (length (columns (snd sh))) ?S))"
      by (cases "?S = {}") (simp_all add: max.assoc)
    with False show ?thesis by (simp add: Cons.IH summary_process_sheet nonempty_sheets_Cons)
  qed
qed

lemma filename_fold_sheets:
  "filename (fst (snd (fold (process_sheet L fn) shs t))) = filename (fst (snd t))"
  by (induction shs arbitrary: t) (simp_all add: summary_process_sheet)

lemma overview_process_file:
  "\<exists>fs. data_overview (process_file L f st) = data_overview st @ [fs] \<and>
        filename fs = fst f \<and>
        total_rows fs = sum_list (map nrows (nonempty_sheets (snd f))) \<and>
        total_columns fs = Max (set (0 # map (\<lambda>df. length (columns df)) (nonempty_sheets (snd f))))"
proof -
  let ?fs = "fst (snd (fold (process_sheet L (fst f)) (snd f)
      (st, \<lparr>filename = fst f, sheets = [], total_rows = 0, total_columns = 0\<rparr>,
       \<lparr>numeric_stats = [], categorical_counts = [], data_quality = []\<rparr>)))"
  have "data_overview (process_file L f st) = data_overview st @ [?fs]"
    by (simp add: process_file_def Let_def overview_fold_sheets)
  moreover have "filename ?fs = fst f"
    by (simp add: filename_fold_sheets)
  moreover have "total_rows ?fs = sum_list (map nrows (nonempty_sheets (snd f)))"
    by (simp add: total_rows_fold_sheets)
  moreover have "total_columns ?fs = Max (set (0 # map (\<lambda>df. length (columns df)) (nonempty_sheets (snd f))))"
    by (simp add: total_columns_fold_sheets)
  ultimately show ?thesis by blast
qed

lemma overview_fold_files:
  "map (\<lambda>fs. (filename fs, total_rows fs, total_columns fs)) (data_overview (fold (process_file L) dfs st)) =
     map (\<lambda>fs. (filename fs, total_rows fs, total_columns fs)) (data_overview st) @ map file_shape dfs"
proof (induction dfs arbitrary: st)
  case Nil
  show ?case by simp
next
  case (Cons f fs)
  obtain s where "data_overview (process_file L f st) = data_overview st @ [s]"
      "filename s = fst f" "total_rows s = sum_list (map nrows (nonempty_sheets (snd f)))"
      "total_columns s = Max (set (0 # map (\<lambda>df. length (columns df)) (nonempty_sheets (snd f))))"
    using overview_process_file by blast
  then show ?case by (simp add: Cons.IH file_shape_def)
qed

text \<open>
  Claim C10. In the shape summary of each file, in the order of the input,
  \<^verbatim>\<open>total_rows\<close> is the sum of the row counts of the sheets of the file that are not
  empty, and \<^verbatim>\<open>total_columns\<close> is the largest column count among these sheets (zero
  when there is none): neither the sum of the column counts nor the number of different
  column names.
\<close>

theorem file_shape_summary:
  "map (\<lambda>fs. (filename fs, total_rows fs, total_columns fs)) (data_overview (analyze_excel_data L dataframes)) =
     map (\<lambda>f. (fst f,
                sum_list (map nrows (nonempty_sheets (snd f))),
                Max (set (0 # map (\<lambda>df. length (columns df)) (nonempty_sheets (snd f))))))
       dataframes"
  using overview_fold_files [of L dataframes initial_state]
  by (simp add: analyze_excel_data_def Let_def analysis.truncate_def initial_state_def file_shape_def)

text \<open>
  A run of C10: a workbook with sheets of one and three columns, four and two rows, and
  an empty sheet between them, has six rows and three columns.
\<close>

theorem file_shape_summary_witness:
  "map (\<lambda>fs. (filename fs, total_rows fs, total_columns fs))
     (data_overview (analyze_excel_data plain_lib three_sheets)) = [(''hr.xlsx'', 6, 3)]"
proof -
  have "nonempty_sheets [(''Sheet1'', sheet_a), (''Sheet2'', \<lparr>nrows = 0, columns = []\<rparr>), (''Sheet3'', wide_sheet)]
      = [sheet_a, wide_sheet]"
    by (simp add: nonempty_sheets_def df_empty_def sheet_a_def wide_sheet_def)
  then show ?thesis
    using file_shape_summary [of plain_lib three_sheets]
    by (simp add: three_sheets_def sheet_a_def wide_sheet_def)
qed

section \<open>The thresholds of the classifier\<close>

lemma nunique_dropna: "nunique s = length (unique (cells (dropna s)))"
  by (simp add: nunique_def dropna_def)

lemma letters40_facts:
  "nunique letters40 = 20" "n_values letters40 = 40"
  by (simp_all add: nunique_def n_values_def dropna_def letters40_def notna_def)

lemma letters42_facts:
  "nunique letters42 = 21" "n_values letters42 = 42"
  by (simp_all add: nunique_def n_values_def dropna_def letters42_def notna_def)

lemma three_ids_facts:
  "nunique three_ids = 3" "n_values three_ids = 3" "dtype three_ids = Int64"
  by (simp_all add: nunique_def n_values_def dropna_def three_ids_def notna_def)

text \<open>
  Claim C2, as amended. For a column whose dtype is not numeric and which is not
  classified as a date: exactly 20 distinct values give \<open>Categorical\<close>; with a ratio
  of distinct to present values of exactly 0.5 the column is \<open>Categorical\<close> when it has
  at most 20 distinct values and \<open>Text\<close> when it has more, because the test on the ratio
  is the strict \<^verbatim>\<open>< 0.5\<close>.
\<close>

theorem step4_thresholds:
  assumes "\<not> is_numeric_dtype (dtype s)"
    and "detect_column_type L s name \<noteq> Date"
  shows "(nunique s = 20 \<longrightarrow> detect_column_type L s name = Categorical) \<and>
         (real (nunique s) / real (n_values s) = 5 / 10 \<longrightarrow>
            detect_column_type L s name = (if nunique s \<le> 20 then Categorical else Text))"
proof -
  have ne: "nunique s = 20 \<or> real (nunique s) / real (n_values s) = 5 / 10 \<Longrightarrow> cells (dropna s) \<noteq> []"
    by (auto simp: nunique_dropna n_values_def)
  have d: "dtype (dropna s) = dtype s" by (simp add: dropna_def)
  show ?thesis
    using assms ne
    by (auto simp: detect_column_type_def Let_def d nunique_dropna n_values_def split: if_splits)
qed

text \<open>
  A run of the amended C2: twenty letters, each twice.
\<close>

theorem step4_thresholds_witness:
  "\<not> is_numeric_dtype (dtype letters40) \<and>
   detect_column_type plain_lib letters40 ''Remark'' \<noteq> Date \<and>
   nunique letters40 = 20 \<and>
   real (nunique letters40) / real (n_values letters40) = 5 / 10 \<and>
   detect_column_type plain_lib letters40 ''Remark'' = Categorical"
proof -
  have a: "\<not> is_numeric_dtype (dtype letters40)"
    by (simp add: is_numeric_dtype_def letters40_def)
  have b: "detect_column_type plain_lib letters40 ''Remark'' \<noteq> Date"
    by (rule letters_not_date)
  from step4_thresholds [OF a b] a b show ?thesis
    by (simp add: letters40_facts)
qed

text \<open>
  Claim C2 as stated fails: twenty-one letters, each twice, have the ratio 0.5 exactly
  and the column is \<open>Text\<close>.
\<close>

theorem ratio_half_with_21_values_is_text:
  "wf_series letters42 \<and>
   \<not> is_numeric_dtype (dtype letters42) \<and>
   detect_column_type plain_lib letters42 ''Remark'' \<noteq> Date \<and>
   real (nunique letters42) / real (n_values letters42) = 5 / 10 \<and>
   detect_column_type plain_lib letters42 ''Remark'' = Text"
proof -
  have "wf_series letters42" by (simp add: wf_series_def letters42_def)
  moreover have "\<not> is_numeric_dtype (dtype letters42)"
    by (simp add: is_numeric_dtype_def letters42_def)
  moreover have "detect_column_type plain_lib letters42 ''Remark'' = Text"
  proof -
    have u: "length (unique (cells (dropna letters42))) = 21"
      using letters42_facts(1) by (simp add: nunique_dropna)
    have n: "length (cells (dropna letters42)) = 42"
      using letters42_facts(2) by (simp add: n_values_def)
    have ne: "cells (dropna letters42) \<noteq> []"
      using n by auto
    have d: "dtype (dropna letters42) = Object"
      by (simp add: dropna_def letters42_def)
    show ?thesis
      by (simp add: detect_column_type_def Let_def name_remark u n ne d is_numeric_dtype_def)
  qed
  ultimately show ?thesis by (simp add: letters42_facts)
qed

text \<open>
  Claim C3, as amended. For an integer column whose ratio of distinct to present values
  exceeds 0.8 and whose lower-cased, stripped name holds no date keyword: a name that
  contains \<^verbatim>\<open>id\<close> gives \<open>Identifier\<close>, and a name with none of \<^verbatim>\<open>id\<close>,
  \<^verbatim>\<open>code\<close>, \<^verbatim>\<open>number\<close> gives \<open>Numeric\<close>.
\<close>

theorem integer_identifier_or_numeric:
  assumes "dtype s = Int64"
    and "real (nunique s) / real (n_values s) > 8 / 10"
    and "\<not> any_keyword date_keywords (strip (lower name))"
  shows "(contains ''id'' (strip (lower name)) \<longrightarrow> detect_column_type L s name = Identifier) \<and>
         (\<not> any_keyword id_keywords (strip (lower name)) \<longrightarrow> detect_column_type L s name = Numeric)"
proof -
  have ne: "cells (dropna s) \<noteq> []"
    using assms(2) by (auto simp: nunique_dropna n_values_def)
  have d: "dtype (dropna s) = dtype s" by (simp add: dropna_def)
  have idk: "contains ''id'' (strip (lower name)) \<Longrightarrow> any_keyword id_keywords (strip (lower name))"
    by (simp add: any_keyword_def id_keywords_def)
  show ?thesis
    using assms ne idk
    by (auto simp: detect_column_type_def Let_def d nunique_dropna n_values_def
        is_numeric_dtype_def is_integer_dtype_def)
qed

text \<open>
  A run of the amended C3: three different integers under the names \<open>Employee ID\<close>
  and \<open>Age\<close>.
\<close>

theorem integer_identifier_or_numeric_witness:
  "dtype three_ids = Int64 \<and>
   real (nunique three_ids) / real (n_values three_ids) > 8 / 10 \<and>
   \<not> any_keyword date_keywords (strip (lower ''Employee ID'')) \<and>
   contains ''id'' (strip (lower ''Employee ID'')) \<and>
   detect_column_type plain_lib three_ids ''Employee ID'' = Identifier \<and>
   \<not> any_keyword date_keywords (strip (lower ''Age'')) \<and>
   \<not> any_keyword id_keywords (strip (lower ''Age'')) \<and>
   detect_column_type plain_lib three_ids ''Age'' = Numeric"
proof -
  have r: "real (nunique three_ids) / real (n_values three_ids) > 8 / 10"
    by (simp add: three_ids_facts)
  have n1: "\<not> any_keyword date_keywords (strip (lower ''Employee ID''))"
    and n2: "\<not> any_keyword date_keywords (strip (lower ''Age''))"
    by (simp_all add: names_for_ids keywords_for_ids)
  from integer_identifier_or_numeric [OF three_ids_facts(3) r n1, of plain_lib]
    integer_identifier_or_numeric [OF three_ids_facts(3) r n2, of plain_lib]
  show ?thesis
    using r by (simp add: names_for_ids keywords_for_ids three_ids_facts)
qed

text \<open>
  Claim C3 as stated fails: the date test comes first, and \<^verbatim>\<open>pd.to_datetime\<close> accepts
  every integer. The same three integers are a \<open>Date\<close> under the name \<open>Candidate\<close>,
  which contains \<^verbatim>\<open>id\<close> and \<^verbatim>\<open>date\<close>, and under the name \<open>Start\<close>, which holds
  none of the identifier keywords.
\<close>

theorem integer_column_with_date_keyword_is_date:
  "wf_series three_ids \<and> dtype three_ids = Int64 \<and>
   real (nunique three_ids) / real (n_values three_ids) > 8 / 10 \<and>
   contains ''id'' (strip (lower ''Candidate'')) \<and>
   detect_column_type plain_lib three_ids ''Candidate'' = Date \<and>
   \<not> any_keyword id_keywords (strip (lower ''Start'')) \<and>
   detect_column_type plain_lib three_ids ''Start'' = Date"
proof -
  have "wf_series three_ids" by (simp add: wf_series_def three_ids_def)
  moreover have ne: "cells (dropna three_ids) \<noteq> []" "dtype (head 10 (dropna three_ids)) = Int64"
    by (simp_all add: dropna_def head_def three_ids_def notna_def)
  moreover have "detect_column_type plain_lib three_ids ''Candidate'' = Date"
    "detect_column_type plain_lib three_ids ''Start'' = Date"
    using ne by (simp_all add: detect_column_type_def Let_def names_for_ids keywords_for_ids
        to_datetime_ok_def)
  ultimately show ?thesis
    by (simp add: three_ids_facts names_for_ids keywords_for_ids)
qed

section \<open>The salary scenario\<close>



section \<open>No data\<close>


















end
